theory Spec2Isabelle
  imports Main
begin

section \<open>Strings\<close>

text \<open>
  A Python string is modelled as a \<^typ>\<open>string\<close>: an ASCII character is one
  \<^typ>\<open>char\<close>, a character outside ASCII is the run of bytes of its UTF-8 encoding
  (a lead byte and its continuation bytes). Lengths and slices of Python count
  characters, so they go through \<open>cp_length\<close> and \<open>cp_take\<close>.
\<close>

definition is_continuation :: "char \<Rightarrow> bool" where
  "is_continuation c = (128 \<le> (of_char c :: nat) \<and> (of_char c :: nat) < 192)"

definition cp_length :: "string \<Rightarrow> nat" where
  "cp_length s = length (filter (\<lambda>c. \<not> is_continuation c) s)"

fun cp_take :: "nat \<Rightarrow> string \<Rightarrow> string" where
  "cp_take n [] = []"
| "cp_take n (c # cs) =
     (if is_continuation c then c # cp_take n cs
      else (case n of 0 \<Rightarrow> [] | Suc m \<Rightarrow> c # cp_take m cs))"

text \<open>
  \<open>str.upper\<close> maps the letters \<open>a\<close>..\<open>z\<close> to \<open>A\<close>..\<open>Z\<close>. Every other byte is left
  alone, which is what \<open>str.upper\<close> does to the ASCII characters that are no lower-case
  letters and to the characters outside ASCII that have no upper-case form; the
  upper-case forms of the other characters are in the Unicode tables and not modelled.
\<close>

definition is_lower_char :: "char \<Rightarrow> bool" where
  "is_lower_char c = (97 \<le> (of_char c :: nat) \<and> (of_char c :: nat) \<le> 122)"

definition upper_char :: "char \<Rightarrow> char" where
  "upper_char c = (if is_lower_char c then char_of ((of_char c :: nat) - 32) else c)"

definition str_upper :: "string \<Rightarrow> string" where
  "str_upper s = map upper_char s"




section \<open>The database backend\<close>

text \<open>
  The engine is created from \<open>DATABASE_URL\<close>, which the environment supplies. The
  development covers two backends, PostgreSQL (through psycopg2) and SQLite; both
  compare strings with \<open>=\<close> exactly. They differ in the operator \<open>LIKE\<close> and in what
  they do with a value longer than its column.
\<close>

datatype backend = PostgreSQL | SQLite

text \<open>\<open>LIKE\<close> ignores the case of ASCII letters on SQLite and no case on PostgreSQL.\<close>

fun like_ignores_case :: "backend \<Rightarrow> bool" where
  "like_ignores_case PostgreSQL = False"
| "like_ignores_case SQLite = True"

text \<open>
  Without an \<open>ESCAPE\<close> clause a pattern has the backslash as its escape character on
  PostgreSQL and no escape character on SQLite.
\<close>

fun like_escape :: "backend \<Rightarrow> char option" where
  "like_escape PostgreSQL = Some (CHR 0x5C)"
| "like_escape SQLite = None"

definition like_char_eq :: "backend \<Rightarrow> char \<Rightarrow> char \<Rightarrow> bool" where
  "like_char_eq be p c = (if like_ignores_case be then upper_char p = upper_char c else p = c)"

text \<open>
  The operator \<open>LIKE\<close>, pattern first: \<open>%\<close> stands for any run of characters, \<open>_\<close> for
  any single character, the escape character makes the character after it stand for
  itself, and every other character stands for itself.
\<close>

function sql_like :: "backend \<Rightarrow> string \<Rightarrow> string \<Rightarrow> bool" where
  "sql_like be [] s = (s = [])"
| "sql_like be (p # ps) [] =
     (if like_escape be = Some p then False else p = CHR ''%'' \<and> sql_like be ps [])"
| "sql_like be (p # ps) (c # cs) =
     (if like_escape be = Some p then
        (case ps of [] \<Rightarrow> False | q # qs \<Rightarrow> like_char_eq be q c \<and> sql_like be qs cs)
      else if p = CHR ''%'' then sql_like be ps (c # cs) \<or> sql_like be (p # ps) cs
      else if p = CHR ''_'' then sql_like be ps (dropWhile is_continuation cs)
      else like_char_eq be p c \<and> sql_like be ps cs)"
  by pat_completeness auto
termination
  by (relation "measure (\<lambda>(be, p, s). length p + length s)")
    (auto intro: le_less_trans [OF length_dropWhile_le])

text \<open>
  A pattern that ends in a lone escape character is refused by PostgreSQL instead of
  being matched; \<open>like_pattern_ok\<close> says that a pattern does not.
\<close>

fun like_pattern_ok :: "backend \<Rightarrow> string \<Rightarrow> bool" where
  "like_pattern_ok be [] = True"
| "like_pattern_ok be [p] = (like_escape be \<noteq> Some p)"
| "like_pattern_ok be (p # q # ps) =
     (if like_escape be = Some p then like_pattern_ok be ps else like_pattern_ok be (q # ps))"

text \<open>
  SQLAlchemy's \<open>column.startswith(other)\<close> is rendered as \<open>column LIKE other || '%'\<close>;
  without \<open>autoescape\<close> the wildcards and the escape character inside \<open>other\<close> keep
  their meaning.
\<close>

definition sql_startswith :: "backend \<Rightarrow> string \<Rightarrow> string \<Rightarrow> bool" where
  "sql_startswith be col other = sql_like be (other @ ''%'') col"



section \<open>Errors and HTTP results\<close>

datatype py_error =
  FileNotFoundError | ValueError | KeyError | IntegrityError | DataError

text \<open>
  A route handler either returns a body (status 200) or raises \<open>HTTPException\<close> with a
  status code and a detail message. Any other exception leaves the handler unhandled;
  it is the \<open>Inl\<close> side of the handler's result.
\<close>

datatype 'a http = OK 'a | HTTPException nat string


section \<open>Schema (schema.py)\<close>

text \<open>
  The pydantic classes, attribute by attribute. \<open>SwiftCodeCreate\<close> inherits the five
  aliased attributes of \<open>SwiftCodeBase\<close> and declares the wire names once more as
  attributes of its own.
\<close>

record SwiftCodeBase =
  swift_code :: string
  bank_name :: string
  address :: string
  country_iso2 :: string
  is_headquarter :: bool

record SwiftCodeCreate = SwiftCodeBase +
  swiftCode :: string
  bankName :: string
  countryISO2 :: string
  countryName :: string
  isHeadquarter :: bool

type_synonym SwiftCodeBranch = SwiftCodeBase


record CountrySwiftCodesResponse =
  resp_country_iso2 :: string
  resp_country_name :: string
  swift_codes :: "SwiftCodeBranch list"

record MessageResponse =
  message :: string

text \<open>
  What validation guarantees of every \<open>SwiftCodeCreate\<close> instance: an aliased attribute
  and the attribute named like its alias are filled from the same input key, and
  \<open>countryISO2\<close> has exactly two characters.
\<close>

definition validated :: "SwiftCodeCreate \<Rightarrow> bool" where
  "validated d =
     (swift_code d = SwiftCodeCreate.swiftCode d \<and>
      bank_name d = SwiftCodeCreate.bankName d \<and>
      country_iso2 d = SwiftCodeCreate.countryISO2 d \<and>
      is_headquarter d = SwiftCodeCreate.isHeadquarter d \<and>
      cp_length (SwiftCodeCreate.countryISO2 d) = 2)"


section \<open>ORM model (model.py) and the store\<close>

text \<open>
  A row of table \<open>swift_codes\<close>. The primary key is \<open>None\<close> on an object that has not
  been flushed yet.
\<close>

record SwiftCode =
  id_pk :: "nat option"
  swiftCode :: string
  bankName :: string
  address :: string
  countryISO2 :: string
  countryName :: string
  isHeadquarter :: bool

record database =
  backend :: backend
  table_rows :: "SwiftCode list"
  next_id :: nat

text \<open>
  \<open>SwiftCode(**swift_data.model_dump(by_alias=True))\<close>: the dump writes the aliased
  attributes first and the attributes declared by \<open>SwiftCodeCreate\<close> after them under
  the same keys, so the latter are the values the constructor receives.
\<close>

definition SwiftCode_init :: "SwiftCodeCreate \<Rightarrow> SwiftCode" where
  "SwiftCode_init d =
     \<lparr>id_pk = None,
      swiftCode = SwiftCodeCreate.swiftCode d,
      bankName = SwiftCodeCreate.bankName d,
      address = SwiftCodeBase.address d,
      countryISO2 = SwiftCodeCreate.countryISO2 d,
      countryName = SwiftCodeCreate.countryName d,
      isHeadquarter = SwiftCodeCreate.isHeadquarter d\<rparr>"

text \<open>
  The columns are declared \<open>String(11)\<close>, \<open>String(100)\<close>, \<open>String(200)\<close>, \<open>String(2)\<close>
  and \<open>String(100)\<close>. PostgreSQL stores a value of at most that many characters as it
  is, cuts a longer value whose excess is nothing but spaces to the limit, and refuses
  any other longer value with \<open>DataError\<close>.
\<close>

definition pg_varchar :: "nat \<Rightarrow> string \<Rightarrow> py_error + string" where
  "pg_varchar n s =
     (if cp_length s \<le> n then Inr s
      else if list_all (\<lambda>c. c = CHR '' '') (drop (length (cp_take n s)) s)
      then Inr (cp_take n s)
      else Inl DataError)"

text \<open>
  psycopg2 refuses to send a string that holds the character NUL and raises
  \<open>ValueError\<close>, before any value reaches the server.
\<close>

definition has_nul :: "string \<Rightarrow> bool" where
  "has_nul s = (CHR 0x00 \<in> set s)"

text \<open>
  What the backend makes of the column values of an \<open>INSERT\<close>. SQLite enforces no
  length and stores every value as it is.
\<close>

fun db_coerce :: "backend \<Rightarrow> SwiftCode \<Rightarrow> py_error + SwiftCode" where
  "db_coerce SQLite obj = Inr obj"
| "db_coerce PostgreSQL obj =
     (if has_nul (swiftCode obj) \<or> has_nul (bankName obj) \<or> has_nul (address obj) \<or>
         has_nul (countryISO2 obj) \<or> has_nul (countryName obj)
      then Inl ValueError
      else
       (case pg_varchar 11 (swiftCode obj) of Inl e \<Rightarrow> Inl e | Inr c \<Rightarrow>
       (case pg_varchar 100 (bankName obj) of Inl e \<Rightarrow> Inl e | Inr b \<Rightarrow>
       (case pg_varchar 200 (address obj) of Inl e \<Rightarrow> Inl e | Inr a \<Rightarrow>
       (case pg_varchar 2 (countryISO2 obj) of Inl e \<Rightarrow> Inl e | Inr i \<Rightarrow>
       (case pg_varchar 100 (countryName obj) of Inl e \<Rightarrow> Inl e | Inr n \<Rightarrow>
          Inr (obj\<lparr>swiftCode := c, bankName := b, address := a,
                    countryISO2 := i, countryName := n\<rparr>)))))))"

text \<open>
  Column values that every backend stores as they are: no NUL, and no value longer than
  its column.
\<close>

definition fits_columns :: "SwiftCode \<Rightarrow> bool" where
  "fits_columns obj =
     (\<not> has_nul (swiftCode obj) \<and> \<not> has_nul (bankName obj) \<and> \<not> has_nul (address obj) \<and>
      \<not> has_nul (countryISO2 obj) \<and> \<not> has_nul (countryName obj) \<and>
      cp_length (swiftCode obj) \<le> 11 \<and> cp_length (bankName obj) \<le> 100 \<and>
      cp_length (address obj) \<le> 200 \<and> cp_length (countryISO2 obj) \<le> 2 \<and>
      cp_length (countryName obj) \<le> 100)"

text \<open>
  The store. \<open>INSERT\<close> fails when the backend refuses a value, fails with
  \<open>IntegrityError\<close> on the unique constraint of column \<open>swiftCode\<close>, and otherwise appends
  the row under a fresh primary key. A flush inserts the pending objects of the session
  in the order they were added; \<open>commit\<close> is one transaction, so a failed flush persists
  nothing and the error is all that comes back.
\<close>

definition db_insert :: "database \<Rightarrow> SwiftCode \<Rightarrow> py_error + database \<times> SwiftCode" where
  "db_insert db obj =
     (case db_coerce (backend db) obj of
        Inl e \<Rightarrow> Inl e
      | Inr row \<Rightarrow>
          (if find (\<lambda>r. swiftCode r = swiftCode row) (table_rows db) \<noteq> None
           then Inl IntegrityError
           else (let stored = row\<lparr>id_pk := Some (next_id db)\<rparr>
                 in Inr (db\<lparr>table_rows := table_rows db @ [stored],
                            next_id := Suc (next_id db)\<rparr>,
                         stored))))"

fun db_flush :: "database \<Rightarrow> SwiftCode list \<Rightarrow> py_error + database" where
  "db_flush db [] = Inr db"
| "db_flush db (obj # pending) =
     (case db_insert db obj of
        Inl e \<Rightarrow> Inl e
      | Inr (db', stored) \<Rightarrow> db_flush db' pending)"

definition db_commit :: "database \<Rightarrow> SwiftCode list \<Rightarrow> py_error + database" where
  "db_commit db pending = db_flush db pending"

text \<open>The primary keys that a flush starting at key \<open>n\<close> gives to the rows it stores.\<close>

fun assign_ids :: "nat \<Rightarrow> SwiftCode list \<Rightarrow> SwiftCode list" where
  "assign_ids n [] = []"
| "assign_ids n (r # rs) = r\<lparr>id_pk := Some n\<rparr> # assign_ids (Suc n) rs"

text \<open>\<open>DELETE\<close> of a loaded object addresses the row by its primary key.\<close>

definition db_delete :: "database \<Rightarrow> SwiftCode \<Rightarrow> database" where
  "db_delete db obj = db\<lparr>table_rows := filter (\<lambda>r. id_pk r \<noteq> id_pk obj) (table_rows db)\<rparr>"


section \<open>CRUD operations (crud\_operations.py)\<close>

definition get_swift_code_by_code :: "database \<Rightarrow> string \<Rightarrow> SwiftCode option" where
  "get_swift_code_by_code db code = find (\<lambda>r. swiftCode r = code) (table_rows db)"

definition get_swift_codes_by_country :: "database \<Rightarrow> string \<Rightarrow> SwiftCode list" where
  "get_swift_codes_by_country db iso2 =
     filter (\<lambda>r. countryISO2 r = str_upper iso2) (table_rows db)"



text \<open>
  In \<open>create_swift_code\<close> the session holds one pending object, so \<open>add\<close>, \<open>commit\<close>
  and \<open>refresh\<close> are one \<open>INSERT\<close> in a transaction of its own, followed by a reload of
  the stored row with its primary key.
\<close>

definition create_swift_code ::
  "database \<Rightarrow> SwiftCodeCreate \<Rightarrow> py_error + database \<times> SwiftCode option" where
  "create_swift_code db swift_data =
     (case get_swift_code_by_code db (swift_code swift_data) of
        Some existing \<Rightarrow> Inr (db, None)
      | None \<Rightarrow>
          (let swift_obj = SwiftCode_init swift_data
           in case db_insert db swift_obj of
                Inl e \<Rightarrow> Inl e
              | Inr (db', stored) \<Rightarrow> Inr (db', Some stored)))"

text \<open>
  The existence check and the insert of \<open>create_swift_code\<close> are separate statements
  against the store. \<open>create_swift_code_interleaved\<close> is the same function with the
  committed writes \<open>other\<close> of the other sessions taking effect between the two.
\<close>

definition create_swift_code_interleaved ::
  "(database \<Rightarrow> database) \<Rightarrow> database \<Rightarrow> SwiftCodeCreate
     \<Rightarrow> py_error + database \<times> SwiftCode option" where
  "create_swift_code_interleaved other db swift_data =
     (case get_swift_code_by_code db (swift_code swift_data) of
        Some existing \<Rightarrow> Inr (db, None)
      | None \<Rightarrow>
          (let swift_obj = SwiftCode_init swift_data
           in case db_insert (other db) swift_obj of
                Inl e \<Rightarrow> Inl e
              | Inr (db', stored) \<Rightarrow> Inr (db', Some stored)))"

definition delete_swift_code :: "database \<Rightarrow> string \<Rightarrow> database \<times> bool" where
  "delete_swift_code db code =
     (case get_swift_code_by_code db code of
        None \<Rightarrow> (db, False)
      | Some existing \<Rightarrow> (db_delete db existing, True))"

text \<open>
  The loop of \<open>bulk_insert_swift_codes\<close>. The session is configured with
  \<open>autoflush=False\<close>, so the existence query of every iteration reads the table as it
  was when the call began; the objects added so far wait in the session.
\<close>

fun bulk_loop ::
  "database \<Rightarrow> SwiftCodeCreate list \<Rightarrow> SwiftCode list \<Rightarrow> nat \<Rightarrow> SwiftCode list \<times> nat" where
  "bulk_loop db [] pending count = (pending, count)"
| "bulk_loop db (entry # entries) pending count =
     (if get_swift_code_by_code db (swift_code entry) = None
      then bulk_loop db entries (pending @ [SwiftCode_init entry]) (count + 1)
      else bulk_loop db entries pending count)"

definition bulk_insert_swift_codes ::
  "database \<Rightarrow> SwiftCodeCreate list \<Rightarrow> py_error + database \<times> nat" where
  "bulk_insert_swift_codes db entries =
     (case bulk_loop db entries [] 0 of
        (pending, count) \<Rightarrow>
          (case db_commit db pending of
             Inl e \<Rightarrow> Inl e
           | Inr db' \<Rightarrow> Inr (db', count)))"


section \<open>Request handlers (main.py)\<close>

text \<open>
  \<open>SwiftCodeBranch(**b.__dict__)\<close> and \<open>SwiftCodeWithBranches(**code.__dict__, branches=...)\<close>
  read the columns of a loaded row by their wire names. Rows are written from validated
  objects only, so validating them again on the way out changes nothing and is left out.
\<close>

definition SwiftCodeBranch_init :: "SwiftCode \<Rightarrow> SwiftCodeBranch" where
  "SwiftCodeBranch_init r =
     \<lparr>swift_code = swiftCode r, bank_name = bankName r, address = address r,
      country_iso2 = countryISO2 r, is_headquarter = isHeadquarter r\<rparr>"



definition get_by_country :: "database \<Rightarrow> string \<Rightarrow> CountrySwiftCodesResponse http" where
  "get_by_country db country_iso =
     (case get_swift_codes_by_country db country_iso of
        [] \<Rightarrow> HTTPException 404 ''No SWIFT codes found for this country''
      | r # rs \<Rightarrow>
          OK \<lparr>resp_country_iso2 = str_upper country_iso,
              resp_country_name = countryName r,
              swift_codes = map SwiftCodeBranch_init (r # rs)\<rparr>)"

definition add_swift_code ::
  "database \<Rightarrow> SwiftCodeCreate \<Rightarrow> py_error + database \<times> MessageResponse http" where
  "add_swift_code db payload =
     (case create_swift_code db payload of
        Inl e \<Rightarrow> Inl e
      | Inr (db', None) \<Rightarrow> Inr (db', HTTPException 400 ''SWIFT code already exists.'')
      | Inr (db', Some created) \<Rightarrow>
          Inr (db', OK \<lparr>message = ''SWIFT code added successfully.''\<rparr>))"



section \<open>Import converter (parser.py)\<close>








section \<open>Example data\<close>

text \<open>The payloads of the API tests, and stores built from them.\<close>

definition swift_payload :: SwiftCodeCreate where
  "swift_payload =
     \<lparr>swift_code = ''TESTUS99XXX'', bank_name = ''Test Bank'', address = ''123 Wall Street'',
      country_iso2 = ''US'', is_headquarter = True,
      SwiftCodeCreate.swiftCode = ''TESTUS99XXX'', SwiftCodeCreate.bankName = ''Test Bank'',
      SwiftCodeCreate.countryISO2 = ''US'', SwiftCodeCreate.countryName = ''UNITED STATES'',
      SwiftCodeCreate.isHeadquarter = True\<rparr>"

definition branch_payload :: SwiftCodeCreate where
  "branch_payload =
     \<lparr>swift_code = ''TESTUS99001'', bank_name = ''Test Branch'', address = ''456 Main Street'',
      country_iso2 = ''US'', is_headquarter = False,
      SwiftCodeCreate.swiftCode = ''TESTUS99001'', SwiftCodeCreate.bankName = ''Test Branch'',
      SwiftCodeCreate.countryISO2 = ''US'', SwiftCodeCreate.countryName = ''UNITED STATES'',
      SwiftCodeCreate.isHeadquarter = False\<rparr>"


text \<open>
  The two characters \<open>U+0138\<close> (LATIN SMALL LETTER KRA, a lower-case letter that has no
  upper-case form) and \<open>A\<close>, and a payload with them as its country code.
\<close>

definition kra_A :: string where
  "kra_A = [CHR 0xC4, CHR 0xB8, CHR ''A'']"

definition kra_payload :: SwiftCodeCreate where
  "kra_payload =
     \<lparr>swift_code = ''TESTGL11XXX'', bank_name = ''Test Bank GL'', address = ''1 Aqqusinersuaq'',
      country_iso2 = kra_A, is_headquarter = True,
      SwiftCodeCreate.swiftCode = ''TESTGL11XXX'', SwiftCodeCreate.bankName = ''Test Bank GL'',
      SwiftCodeCreate.countryISO2 = kra_A, SwiftCodeCreate.countryName = ''GREENLAND'',
      SwiftCodeCreate.isHeadquarter = True\<rparr>"

text \<open>A payload whose code has twelve characters.\<close>

definition long_payload :: SwiftCodeCreate where
  "long_payload =
     \<lparr>swift_code = ''TESTUS99XXXX'', bank_name = ''Test Bank'', address = ''123 Wall Street'',
      country_iso2 = ''US'', is_headquarter = True,
      SwiftCodeCreate.swiftCode = ''TESTUS99XXXX'', SwiftCodeCreate.bankName = ''Test Bank'',
      SwiftCodeCreate.countryISO2 = ''US'', SwiftCodeCreate.countryName = ''UNITED STATES'',
      SwiftCodeCreate.isHeadquarter = True\<rparr>"

definition hq_row :: SwiftCode where
  "hq_row = (SwiftCode_init swift_payload)\<lparr>id_pk := Some 1\<rparr>"

definition branch_row :: SwiftCode where
  "branch_row = (SwiftCode_init branch_payload)\<lparr>id_pk := Some 2\<rparr>"



definition empty_db :: database where
  "empty_db = \<lparr>backend = PostgreSQL, table_rows = [], next_id = 1\<rparr>"

definition hq_db :: database where
  "hq_db = \<lparr>backend = PostgreSQL, table_rows = [hq_row], next_id = 2\<rparr>"

definition test_db :: database where
  "test_db = \<lparr>backend = PostgreSQL, table_rows = [hq_row, branch_row], next_id = 3\<rparr>"









text \<open>Another session that creates \<open>swift_payload\<close> and commits.\<close>

definition concurrent_create :: "database \<Rightarrow> database" where
  "concurrent_create db =
     (case create_swift_code db swift_payload of
        Inl e \<Rightarrow> db
      | Inr (db', created) \<Rightarrow> db')"






section \<open>Properties of the string functions\<close>

lemma of_char_of_nat: "(of_char (char_of (n::nat)) :: nat) = n mod 256"
  by (simp add: of_char_of)

lemma upper_char_not_lower: "\<not> is_lower_char (upper_char c)"
  by (auto simp add: upper_char_def is_lower_char_def of_char_of_nat)

lemma upper_char_idem: "upper_char (upper_char c) = upper_char c"
  using upper_char_not_lower [of c] by (simp add: upper_char_def [of "upper_char c"])

lemma str_upper_idem: "str_upper (str_upper s) = str_upper s"
  by (simp add: str_upper_def upper_char_idem)




lemma like_pattern_ok_startswith: "like_pattern_ok be (other @ ''%'')"
  by (induction be other rule: like_pattern_ok.induct) (case_tac be; simp)+






section \<open>Properties of the store\<close>

lemma find_code_None:
  "find (\<lambda>r. swiftCode r = c) rs = None \<longleftrightarrow> c \<notin> swiftCode ` set rs"
  by (induction rs) auto

lemma filter_code_absent:
  "c \<notin> swiftCode ` set rs \<Longrightarrow> filter (\<lambda>r. swiftCode r = c) rs = []"
  by (induction rs) auto

lemma find_code_append:
  "c \<notin> swiftCode ` set rs \<Longrightarrow>
     find (\<lambda>r. swiftCode r = c) (rs @ ys) = find (\<lambda>r. swiftCode r = c) ys"
  by (induction rs) auto

lemma get_by_code_None:
  "get_swift_code_by_code db c = None \<longleftrightarrow> c \<notin> swiftCode ` set (table_rows db)"
  by (simp add: get_swift_code_by_code_def find_code_None)


lemma pg_varchar_fits: "cp_length s \<le> n \<Longrightarrow> pg_varchar n s = Inr s"
  by (simp add: pg_varchar_def)

lemma db_coerce_fits: "fits_columns obj \<Longrightarrow> db_coerce be obj = Inr obj"
  by (cases be) (simp_all add: fits_columns_def pg_varchar_fits)


lemma db_insert_Inl:
  "db_insert db obj = Inl e \<longleftrightarrow>
     db_coerce (backend db) obj = Inl e \<or>
     (\<exists>row. db_coerce (backend db) obj = Inr row \<and> e = IntegrityError \<and>
            swiftCode row \<in> swiftCode ` set (table_rows db))"
  by (auto simp add: db_insert_def Let_def find_code_None split: sum.splits)

lemma db_insert_Inr:
  "db_insert db obj = Inr (db', stored) \<longleftrightarrow>
     (\<exists>row. db_coerce (backend db) obj = Inr row \<and>
        swiftCode row \<notin> swiftCode ` set (table_rows db) \<and>
        stored = row\<lparr>id_pk := Some (next_id db)\<rparr> \<and>
        db' = db\<lparr>table_rows := table_rows db @ [stored], next_id := Suc (next_id db)\<rparr>)"
  by (auto simp add: db_insert_def Let_def find_code_None split: sum.splits)

lemma assign_ids_codes: "map swiftCode (assign_ids n rs) = map swiftCode rs"
  by (induction rs arbitrary: n) simp_all


lemma db_flush_Inr:
  "db_flush db pending = Inr db' \<Longrightarrow>
   \<exists>rs. map (db_coerce (backend db)) pending = map Inr rs \<and>
        distinct (map swiftCode rs) \<and>
        swiftCode ` set rs \<inter> swiftCode ` set (table_rows db) = {} \<and>
        db' = db\<lparr>table_rows := table_rows db @ assign_ids (next_id db) rs,
                  next_id := next_id db + length rs\<rparr>"
proof (induction pending arbitrary: db)
  case Nil
  then show ?case by auto
next
  case (Cons obj pending)
  then obtain db1 stored where ins: "db_insert db obj = Inr (db1, stored)"
    and fl: "db_flush db1 pending = Inr db'"
    by (auto split: sum.splits)
  from ins obtain row where row: "db_coerce (backend db) obj = Inr row"
    and new: "swiftCode row \<notin> swiftCode ` set (table_rows db)"
    and db1: "db1 = db\<lparr>table_rows := table_rows db @ [row\<lparr>id_pk := Some (next_id db)\<rparr>],
      next_id := Suc (next_id db)\<rparr>"
    by (auto simp add: db_insert_Inr)
  from Cons.IH [OF fl] obtain rest where
    rest: "map (db_coerce (backend db1)) pending = map Inr rest" and
    d: "distinct (map swiftCode rest)" and
    i: "swiftCode ` set rest \<inter> swiftCode ` set (table_rows db1) = {}" and
    db': "db' = db1\<lparr>table_rows := table_rows db1 @ assign_ids (next_id db1) rest,
                  next_id := next_id db1 + length rest\<rparr>"
    by blast
  have "map (db_coerce (backend db)) (obj # pending) = map Inr (row # rest)"
    using row rest by (simp add: db1)
  moreover have "distinct (map swiftCode (row # rest))"
    using d i by (auto simp add: db1)
  moreover have "swiftCode ` set (row # rest) \<inter> swiftCode ` set (table_rows db) = {}"
    using new i by (auto simp add: db1)
  moreover have "db' = db\<lparr>table_rows := table_rows db @ assign_ids (next_id db) (row # rest),
                  next_id := next_id db + length (row # rest)\<rparr>"
    by (simp add: db' db1)
  ultimately show ?case by blast
qed



lemma db_flush_distinct:
  assumes "db_flush db pending = Inr db'" and "distinct (map swiftCode (table_rows db))"
  shows "distinct (map swiftCode (table_rows db'))"
proof -
  from db_flush_Inr [OF assms(1)] obtain rs where
    "distinct (map swiftCode rs)"
    "swiftCode ` set rs \<inter> swiftCode ` set (table_rows db) = {}"
    "table_rows db' = table_rows db @ assign_ids (next_id db) rs"
    by auto
  with assms(2) show ?thesis
    by (auto simp add: assign_ids_codes)
qed

lemma bulk_loop_eq:
  "bulk_loop db entries pending count =
     (pending @ map SwiftCode_init (filter (\<lambda>e. get_swift_code_by_code db (swift_code e) = None) entries),
      count + length (filter (\<lambda>e. get_swift_code_by_code db (swift_code e) = None) entries))"
  by (induction entries arbitrary: pending count) simp_all


lemma SwiftCode_init_code: "swiftCode (SwiftCode_init e) = SwiftCodeCreate.swiftCode e"
  by (simp add: SwiftCode_init_def)


section \<open>Evaluation of the examples\<close>

lemma str_upper_us: "str_upper ''us'' = ''US''"
  by code_simp


lemma validated_swift_payload: "validated swift_payload"
  by code_simp


lemma validated_long_payload: "validated long_payload"
  by code_simp


lemma validated_kra_payload: "validated kra_payload"
  by code_simp

lemma fits_swift_payload: "fits_columns (SwiftCode_init swift_payload)"
  by code_simp


lemma fits_kra_payload: "fits_columns (SwiftCode_init kra_payload)"
  by code_simp

lemma create_swift_payload_empty:
  "create_swift_code empty_db swift_payload = Inr (hq_db, Some hq_row)"
  by code_simp

lemma create_branch_payload_hq:
  "create_swift_code hq_db branch_payload = Inr (test_db, Some branch_row)"
  by code_simp

lemma concurrent_create_empty: "concurrent_create empty_db = hq_db"
  by (simp add: concurrent_create_def create_swift_payload_empty)

lemma bulk_insert_empty_db:
  "bulk_insert_swift_codes empty_db [swift_payload, branch_payload] = Inr (test_db, 2)"
  by code_simp

lemma bulk_insert_hq_db:
  "bulk_insert_swift_codes hq_db [swift_payload, branch_payload] = Inr (test_db, 1)"
  by code_simp

text \<open>A wildcard inside the requested root matches any character of a stored code.\<close>

lemma sql_startswith_wildcard: "sql_startswith PostgreSQL ''TESTUS99001'' ''TEST_S99''"
  by code_simp

text \<open>On SQLite a stored code in lower case begins with a root in upper case.\<close>

lemma sql_startswith_lower_case:
  "sql_startswith SQLite ''testus99002'' ''TESTUS99'' \<and>
   \<not> sql_startswith PostgreSQL ''testus99002'' ''TESTUS99''"
  by code_simp


section \<open>Country lookup\<close>

text \<open>
  Claim C6. For every input string and every store state, the country query and the
  country query on the upper-cased input return the same records, because the input is
  upper-cased before it is compared with the stored \<open>countryISO2\<close>; in particular the
  queries for \<open>us\<close> and \<open>US\<close> agree.
\<close>

theorem get_swift_codes_by_country_upper:
  "get_swift_codes_by_country db s = get_swift_codes_by_country db (str_upper s) \<and>
   get_swift_codes_by_country db s = filter (\<lambda>r. countryISO2 r = str_upper s) (table_rows db) \<and>
   get_swift_codes_by_country db ''us'' = get_swift_codes_by_country db ''US''"
  by (simp add: get_swift_codes_by_country_def str_upper_idem str_upper_us [symmetric])

theorem get_swift_codes_by_country_upper_witness:
  "get_swift_codes_by_country test_db ''us'' = get_swift_codes_by_country test_db ''US'' \<and>
   get_swift_codes_by_country test_db ''us'' = [hq_row, branch_row]"
proof -
  have rows: "get_swift_codes_by_country test_db ''us'' = [hq_row, branch_row]"
    by code_simp
  from get_swift_codes_by_country_upper [of test_db "''us''"] rows show ?thesis
    by (simp add: str_upper_us)
qed


section \<open>Get by code\<close>





section \<open>Create\<close>

text \<open>
  Claim C3, as stated, on PostgreSQL with a validated payload whose code has twelve
  characters and is not in the store: the insert is refused with \<open>DataError\<close>, so create
  returns neither the conflict signal nor a new record, and the handler does not answer
  with the success message.
\<close>

theorem create_swift_code_too_long_counterexample:
  "validated long_payload \<and>
   get_swift_code_by_code empty_db (swift_code long_payload) = None \<and>
   create_swift_code empty_db long_payload = Inl DataError \<and>
   add_swift_code empty_db long_payload = Inl DataError"
  by code_simp

text \<open>
  Claim C3, amended. For every store state and every validated create payload: if a
  record with the payload's code exists, \<open>create_swift_code\<close> returns the conflict signal
  \<open>None\<close>, the store is unchanged and the handler answers 400 with "SWIFT code already
  exists."; otherwise, if the backend is SQLite or the submitted values fit the columns
  of the table, exactly one record with the submitted field values is appended and the
  handler answers with the success message. Creating the same code once more then yields
  the conflict, and the store holds exactly one record of that code.
\<close>

theorem create_swift_code_spec:
  assumes "validated d"
  shows "(\<forall>r. get_swift_code_by_code db (swift_code d) = Some r \<longrightarrow>
            create_swift_code db d = Inr (db, None) \<and>
            add_swift_code db d = Inr (db, HTTPException 400 ''SWIFT code already exists.'')) \<and>
         (get_swift_code_by_code db (swift_code d) = None \<and>
          (backend db = SQLite \<or> fits_columns (SwiftCode_init d)) \<longrightarrow>
            (\<exists>stored db'.
               create_swift_code db d = Inr (db', Some stored) \<and>
               add_swift_code db d = Inr (db', OK \<lparr>message = ''SWIFT code added successfully.''\<rparr>) \<and>
               table_rows db' = table_rows db @ [stored] \<and>
               backend db' = backend db \<and>
               swiftCode stored = SwiftCodeCreate.swiftCode d \<and>
               bankName stored = SwiftCodeCreate.bankName d \<and>
               address stored = SwiftCodeBase.address d \<and>
               countryISO2 stored = SwiftCodeCreate.countryISO2 d \<and>
               countryName stored = SwiftCodeCreate.countryName d \<and>
               isHeadquarter stored = SwiftCodeCreate.isHeadquarter d \<and>
               create_swift_code db' d = Inr (db', None) \<and>
               add_swift_code db' d = Inr (db', HTTPException 400 ''SWIFT code already exists.'') \<and>
               filter (\<lambda>r. swiftCode r = SwiftCodeCreate.swiftCode d) (table_rows db') = [stored]))"
proof (rule conjI; intro allI impI)
  fix r
  assume "get_swift_code_by_code db (swift_code d) = Some r"
  then show "create_swift_code db d = Inr (db, None) \<and>
            add_swift_code db d = Inr (db, HTTPException 400 ''SWIFT code already exists.'')"
    by (simp add: create_swift_code_def add_swift_code_def)
next
  assume h: "get_swift_code_by_code db (swift_code d) = None \<and>
          (backend db = SQLite \<or> fits_columns (SwiftCode_init d))"
  then have absent: "get_swift_code_by_code db (swift_code d) = None"
    by simp
  from h have coerce: "db_coerce (backend db) (SwiftCode_init d) = Inr (SwiftCode_init d)"
    by (auto simp add: db_coerce_fits)
  from assms have key: "swift_code d = SwiftCodeCreate.swiftCode d"
    by (simp add: validated_def)
  define stored where "stored = (SwiftCode_init d)\<lparr>id_pk := Some (next_id db)\<rparr>"
  define db' where "db' = db\<lparr>table_rows := table_rows db @ [stored], next_id := Suc (next_id db)\<rparr>"
  have code: "swiftCode stored = SwiftCodeCreate.swiftCode d"
    by (simp add: stored_def SwiftCode_init_def)
  from absent key have fresh: "SwiftCodeCreate.swiftCode d \<notin> swiftCode ` set (table_rows db)"
    by (simp add: get_by_code_None)
  with coerce have ins: "db_insert db (SwiftCode_init d) = Inr (db', stored)"
    by (simp add: db_insert_Inr stored_def db'_def SwiftCode_init_code)
  with absent have created: "create_swift_code db d = Inr (db', Some stored)"
    by (simp add: create_swift_code_def)
  have none: "filter (\<lambda>r. swiftCode r = SwiftCodeCreate.swiftCode d) (table_rows db) = []"
    using fresh by (rule filter_code_absent)
  have found: "get_swift_code_by_code db' (swift_code d) = Some stored"
    using fresh code key
    by (simp add: get_swift_code_by_code_def db'_def find_code_append)
  then have again: "create_swift_code db' d = Inr (db', None)"
    by (simp add: create_swift_code_def)
  have "create_swift_code db d = Inr (db', Some stored) \<and>
        add_swift_code db d = Inr (db', OK \<lparr>message = ''SWIFT code added successfully.''\<rparr>) \<and>
        table_rows db' = table_rows db @ [stored] \<and>
        backend db' = backend db \<and>
        swiftCode stored = SwiftCodeCreate.swiftCode d \<and>
        bankName stored = SwiftCodeCreate.bankName d \<and>
        address stored = SwiftCodeBase.address d \<and>
        countryISO2 stored = SwiftCodeCreate.countryISO2 d \<and>
        countryName stored = SwiftCodeCreate.countryName d \<and>
        isHeadquarter stored = SwiftCodeCreate.isHeadquarter d \<and>
        create_swift_code db' d = Inr (db', None) \<and>
        add_swift_code db' d = Inr (db', HTTPException 400 ''SWIFT code already exists.'') \<and>
        filter (\<lambda>r. swiftCode r = SwiftCodeCreate.swiftCode d) (table_rows db') = [stored]"
    using created again none code
    by (simp add: add_swift_code_def db'_def stored_def SwiftCode_init_def)
  then show "\<exists>stored db'.
               create_swift_code db d = Inr (db', Some stored) \<and>
               add_swift_code db d = Inr (db', OK \<lparr>message = ''SWIFT code added successfully.''\<rparr>) \<and>
               table_rows db' = table_rows db @ [stored] \<and>
               backend db' = backend db \<and>
               swiftCode stored = SwiftCodeCreate.swiftCode d \<and>
               bankName stored = SwiftCodeCreate.bankName d \<and>
               address stored = SwiftCodeBase.address d \<and>
               countryISO2 stored = SwiftCodeCreate.countryISO2 d \<and>
               countryName stored = SwiftCodeCreate.countryName d \<and>
               isHeadquarter stored = SwiftCodeCreate.isHeadquarter d \<and>
               create_swift_code db' d = Inr (db', None) \<and>
               add_swift_code db' d = Inr (db', HTTPException 400 ''SWIFT code already exists.'') \<and>
               filter (\<lambda>r. swiftCode r = SwiftCodeCreate.swiftCode d) (table_rows db') = [stored]"
    by blast
qed

theorem create_swift_code_spec_witness:
  "validated swift_payload \<and>
   get_swift_code_by_code empty_db (swift_code swift_payload) = None \<and>
   fits_columns (SwiftCode_init swift_payload) \<and>
   create_swift_code empty_db swift_payload = Inr (hq_db, Some hq_row) \<and>
   create_swift_code hq_db swift_payload = Inr (hq_db, None) \<and>
   add_swift_code hq_db swift_payload =
     Inr (hq_db, HTTPException 400 ''SWIFT code already exists.'')"
proof -
  have absent: "get_swift_code_by_code empty_db (swift_code swift_payload) = None"
    by code_simp
  from create_swift_code_spec [OF validated_swift_payload, of empty_db] absent fits_swift_payload
  obtain stored db' where
    c: "create_swift_code empty_db swift_payload = Inr (db', Some stored)" and
    a: "create_swift_code db' swift_payload = Inr (db', None)" and
    h: "add_swift_code db' swift_payload = Inr (db', HTTPException 400 ''SWIFT code already exists.'')"
    by blast
  from c create_swift_payload_empty have "db' = hq_db"
    by simp
  with a h create_swift_payload_empty absent validated_swift_payload fits_swift_payload
  show ?thesis
    by simp
qed

text \<open>
  Claim C4, as stated, on the empty store with another session creating the same code
  between the existence check and the insert: the insert violates the unique
  constraint, and \<open>create_swift_code\<close> ends with \<open>IntegrityError\<close> instead of the
  conflict signal \<open>None\<close>.
\<close>

theorem create_constraint_violation_counterexample:
  "get_swift_code_by_code empty_db (swift_code swift_payload) = None \<and>
   db_insert (concurrent_create empty_db) (SwiftCode_init swift_payload) = Inl IntegrityError \<and>
   create_swift_code_interleaved concurrent_create empty_db swift_payload = Inl IntegrityError \<and>
   create_swift_code_interleaved concurrent_create empty_db swift_payload \<noteq>
     Inr (concurrent_create empty_db, None)"
proof -
  have absent: "get_swift_code_by_code empty_db (swift_code swift_payload) = None"
    by code_simp
  have ins: "db_insert (concurrent_create empty_db) (SwiftCode_init swift_payload) = Inl IntegrityError"
    unfolding concurrent_create_empty by code_simp
  from absent ins show ?thesis
    by (simp add: create_swift_code_interleaved_def)
qed

text \<open>
  Claim C4, amended. If the existence check of \<open>create_swift_code\<close> finds nothing and
  the insert raises an error, the uniqueness violation in particular,
  \<open>create_swift_code\<close> lets that error propagate. The insert does raise the uniqueness
  violation \<open>IntegrityError\<close> when the code is in the store by the time of the insert
  and the backend accepts the submitted values (it is SQLite, or they fit the columns).
  The conflict signal \<open>None\<close> is returned exactly when the existence check finds a
  record, and then the store is left as it was. Without interference the interleaved
  function is \<open>create_swift_code\<close> itself.
\<close>

theorem create_constraint_violation_propagates:
  "(get_swift_code_by_code db (swift_code d) = None \<and>
    (backend (other db) = SQLite \<or> fits_columns (SwiftCode_init d)) \<and>
    get_swift_code_by_code (other db) (SwiftCodeCreate.swiftCode d) \<noteq> None \<longrightarrow>
      db_insert (other db) (SwiftCode_init d) = Inl IntegrityError \<and>
      create_swift_code_interleaved other db d = Inl IntegrityError) \<and>
   (\<forall>e. get_swift_code_by_code db (swift_code d) = None \<and>
        db_insert (other db) (SwiftCode_init d) = Inl e \<longrightarrow>
      create_swift_code_interleaved other db d = Inl e) \<and>
   (create_swift_code_interleaved other db d = Inr (db', None) \<longleftrightarrow>
      get_swift_code_by_code db (swift_code d) \<noteq> None \<and> db' = db) \<and>
   create_swift_code_interleaved (\<lambda>x. x) db d = create_swift_code db d"
proof (intro conjI impI allI)
  assume a: "get_swift_code_by_code db (swift_code d) = None \<and>
    (backend (other db) = SQLite \<or> fits_columns (SwiftCode_init d)) \<and>
    get_swift_code_by_code (other db) (SwiftCodeCreate.swiftCode d) \<noteq> None"
  then have coerce: "db_coerce (backend (other db)) (SwiftCode_init d) = Inr (SwiftCode_init d)"
    by (auto simp add: db_coerce_fits)
  from a have "swiftCode (SwiftCode_init d) \<in> swiftCode ` set (table_rows (other db))"
    by (simp add: get_by_code_None SwiftCode_init_def)
  with coerce show ins: "db_insert (other db) (SwiftCode_init d) = Inl IntegrityError"
    by (simp add: db_insert_Inl)
  with a show "create_swift_code_interleaved other db d = Inl IntegrityError"
    by (simp add: create_swift_code_interleaved_def)
next
  fix e
  assume "get_swift_code_by_code db (swift_code d) = None \<and>
        db_insert (other db) (SwiftCode_init d) = Inl e"
  then show "create_swift_code_interleaved other db d = Inl e"
    by (simp add: create_swift_code_interleaved_def)
next
  show "create_swift_code_interleaved other db d = Inr (db', None) \<longleftrightarrow>
      get_swift_code_by_code db (swift_code d) \<noteq> None \<and> db' = db"
    by (auto simp add: create_swift_code_interleaved_def Let_def split: option.splits sum.splits)
next
  show "create_swift_code_interleaved (\<lambda>x. x) db d = create_swift_code db d"
    by (simp add: create_swift_code_interleaved_def create_swift_code_def)
qed

theorem create_constraint_violation_propagates_witness:
  "get_swift_code_by_code empty_db (swift_code swift_payload) = None \<and>
   fits_columns (SwiftCode_init swift_payload) \<and>
   get_swift_code_by_code (concurrent_create empty_db) (SwiftCodeCreate.swiftCode swift_payload) = Some hq_row \<and>
   create_swift_code_interleaved concurrent_create empty_db swift_payload = Inl IntegrityError"
proof -
  have absent: "get_swift_code_by_code empty_db (swift_code swift_payload) = None"
    by code_simp
  have present: "get_swift_code_by_code (concurrent_create empty_db)
      (SwiftCodeCreate.swiftCode swift_payload) = Some hq_row"
    unfolding concurrent_create_empty by code_simp
  from create_constraint_violation_propagates [of empty_db swift_payload concurrent_create]
    absent present fits_swift_payload
  show ?thesis by simp
qed


section \<open>Bulk insert\<close>

text \<open>
  Claim C7. Running \<open>bulk_insert_swift_codes\<close> against a store that already holds a
  record for the code of every entry adds nothing, returns the count 0 and leaves the
  store, hence every existing record, exactly as it was.
\<close>

theorem bulk_insert_existing_codes:
  assumes "\<forall>e \<in> set entries. get_swift_code_by_code db (swift_code e) \<noteq> None"
  shows "bulk_insert_swift_codes db entries = Inr (db, 0)"
proof -
  from assms have "filter (\<lambda>e. get_swift_code_by_code db (swift_code e) = None) entries = []"
    by (simp add: filter_empty_conv)
  then have "bulk_loop db entries [] 0 = ([], 0)"
    by (simp add: bulk_loop_eq)
  then show ?thesis
    by (simp add: bulk_insert_swift_codes_def db_commit_def)
qed

theorem bulk_insert_existing_codes_witness:
  "get_swift_code_by_code test_db (swift_code swift_payload) = Some hq_row \<and>
   get_swift_code_by_code test_db (swift_code branch_payload) = Some branch_row \<and>
   bulk_insert_swift_codes test_db [swift_payload, branch_payload] = Inr (test_db, 0)"
proof -
  have hq: "get_swift_code_by_code test_db (swift_code swift_payload) = Some hq_row"
    by code_simp
  have br: "get_swift_code_by_code test_db (swift_code branch_payload) = Some branch_row"
    by code_simp
  from hq br have h: "\<forall>e \<in> set [swift_payload, branch_payload].
      get_swift_code_by_code test_db (swift_code e) \<noteq> None"
    by simp
  from hq br bulk_insert_existing_codes [OF h] show ?thesis
    by (intro conjI)
qed


section \<open>Delete\<close>






section \<open>Uniqueness of codes\<close>

text \<open>
  Claim C9. Uniqueness of codes is an invariant of the store: from a state whose
  records have pairwise distinct codes, every state that \<open>create_swift_code\<close>,
  \<open>delete_swift_code\<close> or \<open>bulk_insert_swift_codes\<close> results in has records with
  pairwise distinct codes. (An operation that ends with an error is rolled back and
  results in no new state.)
\<close>

theorem code_uniqueness_invariant:
  assumes "distinct (map swiftCode (table_rows db))"
  shows "(\<forall>db' r. create_swift_code db d = Inr (db', r) \<longrightarrow>
            distinct (map swiftCode (table_rows db'))) \<and>
         (\<forall>db' b. delete_swift_code db code = (db', b) \<longrightarrow>
            distinct (map swiftCode (table_rows db'))) \<and>
         (\<forall>db' n. bulk_insert_swift_codes db entries = Inr (db', n) \<longrightarrow>
            distinct (map swiftCode (table_rows db')))"
proof (intro conjI allI impI)
  fix db' r
  assume "create_swift_code db d = Inr (db', r)"
  then have "db' = db \<or> (\<exists>stored. db_insert db (SwiftCode_init d) = Inr (db', stored))"
    by (auto simp add: create_swift_code_def Let_def split: option.splits sum.splits)
  then show "distinct (map swiftCode (table_rows db'))"
  proof
    assume "db' = db"
    with assms show ?thesis by simp
  next
    assume "\<exists>stored. db_insert db (SwiftCode_init d) = Inr (db', stored)"
    then have "db_flush db [SwiftCode_init d] = Inr db'"
      by auto
    then show ?thesis using assms by (rule db_flush_distinct)
  qed
next
  fix db' b
  assume "delete_swift_code db code = (db', b)"
  then have "db' = db \<or> (\<exists>r. db' = db_delete db r)"
    by (auto simp add: delete_swift_code_def split: option.splits)
  with assms show "distinct (map swiftCode (table_rows db'))"
    by (auto simp add: db_delete_def distinct_map_filter)
next
  fix db' n
  assume "bulk_insert_swift_codes db entries = Inr (db', n)"
  then have "db_flush db (fst (bulk_loop db entries [] 0)) = Inr db'"
    by (auto simp add: bulk_insert_swift_codes_def db_commit_def split: prod.splits sum.splits)
  then show "distinct (map swiftCode (table_rows db'))"
    using assms by (rule db_flush_distinct)
qed

theorem code_uniqueness_invariant_witness:
  "distinct (map swiftCode (table_rows hq_db)) \<and>
   create_swift_code hq_db branch_payload = Inr (test_db, Some branch_row) \<and>
   delete_swift_code hq_db ''TESTUS99XXX'' = (hq_db\<lparr>table_rows := []\<rparr>, True) \<and>
   bulk_insert_swift_codes hq_db [swift_payload, branch_payload] = Inr (test_db, 1) \<and>
   distinct (map swiftCode (table_rows test_db)) \<and>
   distinct (map swiftCode (table_rows (hq_db\<lparr>table_rows := []\<rparr>)))"
proof -
  have d: "distinct (map swiftCode (table_rows hq_db))"
    by code_simp
  have del: "delete_swift_code hq_db ''TESTUS99XXX'' = (hq_db\<lparr>table_rows := []\<rparr>, True)"
    by code_simp
  note inv = code_uniqueness_invariant [OF d, of branch_payload "''TESTUS99XXX''"
      "[swift_payload, branch_payload]"]
  from inv create_branch_payload_hq have 1: "distinct (map swiftCode (table_rows test_db))"
    by blast
  from inv del have 2: "distinct (map swiftCode (table_rows (hq_db\<lparr>table_rows := []\<rparr>)))"
    by blast
  from inv bulk_insert_hq_db have 3: "distinct (map swiftCode (table_rows test_db))"
    by blast
  from d create_branch_payload_hq del bulk_insert_hq_db 3 2 show ?thesis
    by (intro conjI)
qed


section \<open>Country codes in lower case\<close>





section \<open>Import converter\<close>









section \<open>Bulk insert: the loop and the commit\<close>










end
